theory Spec2Isabelle
  imports Complex_Main
begin

section \<open>The Telegram notification worker (apps/web\_app/telegram/notifications.py)\<close>

text \<open>
  The module keeps a Redis list of notification identifiers, a database of
  \<open>NotificationData\<close> rows, and a Telegram bot. \<open>send_notification\<close> pushes an
  identifier on the left of the list; \<open>notifications_broadcasting\<close> pops from the right,
  looks the row up, sends the message and writes a \<open>TelegramLog\<close> row.

  The model is sequential: the list is changed by the worker only, the database lookup is a
  fixed function, and every external call other than \<open>bot.send_message\<close> returns normally.
  Everything the worker does to the outside is recorded, in order, in \<open>events\<close>.
\<close>

subsection \<open>Data\<close>

text \<open>What \<open>rpop\<close> hands back: a byte string. The only falsy one is the empty one.\<close>

type_synonym ident = string

text \<open>
  Durations are only handed on to \<open>asyncio.sleep\<close>, never computed with:
  \<open>sleep_time\<close> and the \<open>retry_after\<close> of the exception.
\<close>

type_synonym duration = rat

text \<open>
  The column types of \<open>NotificationData\<close> are declared in \<open>database.models\<close>. The worker
  tests \<open>telegram_id\<close> for truthiness only, so the field ranges over the Python values
  on which that test differs: \<open>None\<close>, a string, an integer.
\<close>

datatype pyval = PyNone | PyStr string | PyInt int

fun truthy :: "pyval \<Rightarrow> bool" where
  "truthy PyNone = False"
| "truthy (PyStr s) = (s \<noteq> [])"
| "truthy (PyInt i) = (i \<noteq> 0)"

record NotificationData =
  wallet_id :: string
  telegram_id :: pyval

record TelegramLog =
  notification_data_id :: ident
  is_succesfully :: bool
  message :: string

text \<open>
  How \<open>await bot.send_message(...)\<close> ends: it returns, or raises
  \<open>TelegramRetryAfter\<close> (carrying \<open>retry_after\<close>), or another
  \<open>TelegramAPIError\<close>, or an exception outside that family.
\<close>

datatype send_result =
    Sent
  | TelegramRetryAfter duration
  | TelegramAPIError
  | OtherException

datatype event =
    Rpop "ident option"
  | Lpush ident
  | GetObject ident
  | SendMessage pyval string
  | Sleep duration
  | WriteToDb TelegramLog

text \<open>
  The Redis list is written left to right: \<open>lpush\<close> adds at the front of the HOL list,
  \<open>rpop\<close> takes the last element. \<open>bot_state\<close> is whatever decides the bot's answers.
\<close>

record 'e world =
  queue :: "ident list"
  bot_state :: 'e
  events :: "event list"

type_synonym db = "ident \<Rightarrow> NotificationData option"

type_synonym 'e bot = "'e \<Rightarrow> pyval \<Rightarrow> string \<Rightarrow> send_result \<times> 'e"

subsection \<open>The message template\<close>

definition DEFAULT_MESSAGE_TEMPLATE :: string where
  "DEFAULT_MESSAGE_TEMPLATE =
     ''Warning. Your health ratio is too low for wallet_id {wallet_id}''"

text \<open>
  \<open>template.format(wallet_id=v)\<close> for a template whose only braces are the replacement
  field \<open>{wallet_id}\<close>: each occurrence of the field is replaced by \<open>v\<close>, and \<open>v\<close> itself
  is not scanned again.
\<close>

fun format_wallet_id :: "string \<Rightarrow> string \<Rightarrow> string" where
  "format_wallet_id [] v = []"
| "format_wallet_id (c # cs) v =
     (if take 11 (c # cs) = ''{wallet_id}'' then v @ format_wallet_id (drop 10 cs) v
      else c # format_wallet_id cs v)"

subsection \<open>The external calls\<close>

definition record_event :: "event \<Rightarrow> 'e world \<Rightarrow> 'e world" where
  "record_event ev w = w\<lparr>events := events w @ [ev]\<rparr>"

text \<open>\<open>redis_client.rpop\<close>: \<open>None\<close> on an empty list, else the rightmost element.\<close>

definition rpop :: "'e world \<Rightarrow> ident option \<times> 'e world" where
  "rpop w =
     (if queue w = [] then (None, record_event (Rpop None) w)
      else (Some (last (queue w)),
            record_event (Rpop (Some (last (queue w)))) (w\<lparr>queue := butlast (queue w)\<rparr>)))"

definition lpush :: "ident \<Rightarrow> 'e world \<Rightarrow> 'e world" where
  "lpush i w = record_event (Lpush i) (w\<lparr>queue := i # queue w\<rparr>)"

definition asyncio_sleep :: "duration \<Rightarrow> 'e world \<Rightarrow> 'e world" where
  "asyncio_sleep d w = record_event (Sleep d) w"

definition get_object :: "db \<Rightarrow> ident \<Rightarrow> 'e world \<Rightarrow> NotificationData option \<times> 'e world" where
  "get_object d i w = (d i, record_event (GetObject i) w)"

definition send_message :: "'e bot \<Rightarrow> pyval \<Rightarrow> string \<Rightarrow> 'e world \<Rightarrow> send_result \<times> 'e world" where
  "send_message b chat_id text w =
     (fst (b (bot_state w) chat_id text),
      record_event (SendMessage chat_id text) (w\<lparr>bot_state := snd (b (bot_state w) chat_id text)\<rparr>))"

subsection \<open>The module's functions\<close>

definition send_notification :: "ident \<Rightarrow> 'e world \<Rightarrow> 'e world" where
  "send_notification notification_id w = lpush notification_id w"

definition log_send_message :: "ident \<Rightarrow> string \<Rightarrow> bool \<Rightarrow> 'e world \<Rightarrow> 'e world" where
  "log_send_message notification_id text ok w =
     record_event
       (WriteToDb \<lparr>notification_data_id = notification_id, is_succesfully = ok, message = text\<rparr>) w"

text \<open>How one pass through the \<open>while\<close> ends.\<close>

datatype 'e flow =
    LoopExit "'e world"
  | Continue "'e world"
  | Completed "'e world"
  | Propagated "'e world"

fun flow_world :: "'e flow \<Rightarrow> 'e world" where
  "flow_world (LoopExit w) = w"
| "flow_world (Continue w) = w"
| "flow_world (Completed w) = w"
| "flow_world (Propagated w) = w"

text \<open>
  The \<open>try\<close> statement with its handlers and its \<open>finally\<close>, for a row that was found.
  The \<open>finally\<close> clause runs on every way out, also when the exception is not handled.
\<close>

definition deliver :: "'e bot \<Rightarrow> ident \<Rightarrow> NotificationData \<Rightarrow> 'e world \<Rightarrow> 'e flow" where
  "deliver b notification_id notification w =
     (let text = format_wallet_id DEFAULT_MESSAGE_TEMPLATE (wallet_id notification) in
      if truthy (telegram_id notification) then
        (case send_message b (telegram_id notification) text w of
           (Sent, w1) \<Rightarrow> Completed (log_send_message notification_id text True w1)
         | (TelegramRetryAfter retry_after, w1) \<Rightarrow>
             Completed (log_send_message notification_id text False
                          (lpush notification_id (asyncio_sleep retry_after w1)))
         | (TelegramAPIError, w1) \<Rightarrow> Completed (log_send_message notification_id text False w1)
         | (OtherException, w1) \<Rightarrow> Propagated (log_send_message notification_id text False w1))
      else Completed (log_send_message notification_id text False w))"

text \<open>
  One pass: the loop condition (the pop and the truth test of what it returned), then the
  body up to the \<open>finally\<close>.
\<close>

definition iteration :: "db \<Rightarrow> 'e bot \<Rightarrow> 'e world \<Rightarrow> 'e flow" where
  "iteration d b w =
     (case rpop w of
        (None, w1) \<Rightarrow> LoopExit w1
      | (Some notification_id, w1) \<Rightarrow>
          if notification_id = [] then LoopExit w1
          else (case get_object d notification_id w1 of
                  (None, w2) \<Rightarrow> Continue w2
                | (Some notification, w2) \<Rightarrow> deliver b notification_id notification w2))"

datatype exn = Unhandled

partial_function (option) notifications_broadcasting ::
  "db \<Rightarrow> 'e bot \<Rightarrow> bool \<Rightarrow> duration \<Rightarrow> 'e world \<Rightarrow> ((exn + unit) \<times> 'e world) option"
where
  "notifications_broadcasting d b is_infinity sleep_time w =
     (case iteration d b w of
        LoopExit w1 \<Rightarrow> Some (Inr (), w1)
      | Continue w1 \<Rightarrow> notifications_broadcasting d b is_infinity sleep_time w1
      | Propagated w1 \<Rightarrow> Some (Inl Unhandled, w1)
      | Completed w1 \<Rightarrow>
          if \<not> is_infinity then Some (Inr (), w1)
          else notifications_broadcasting d b is_infinity sleep_time (asyncio_sleep sleep_time w1))"

subsection \<open>Reading the record of events\<close>

text \<open>The text of the message for a row.\<close>

abbreviation render :: "NotificationData \<Rightarrow> string" where
  "render n \<equiv> format_wallet_id DEFAULT_MESSAGE_TEMPLATE (wallet_id n)"

text \<open>The \<open>TelegramLog\<close> rows written, the identifiers popped, and whether a pass ended in an
  exception that leaves the function.\<close>

fun log_rows :: "event list \<Rightarrow> TelegramLog list" where
  "log_rows [] = []"
| "log_rows (WriteToDb r # es) = r # log_rows es"
| "log_rows (e # es) = log_rows es"

fun popped :: "event list \<Rightarrow> ident list" where
  "popped [] = []"
| "popped (Rpop (Some i) # es) = i # popped es"
| "popped (e # es) = popped es"

fun is_propagated :: "'e flow \<Rightarrow> bool" where
  "is_propagated (Propagated w) = True"
| "is_propagated f = False"

subsection \<open>A small database and a bot that answers from a script\<close>

text \<open>
  Rows used in the concrete runs below: \<open>a\<close> has a chat to write to, \<open>b\<close>, \<open>c\<close> and \<open>d\<close> have
  a \<open>telegram_id\<close> that is \<open>None\<close>, \<open>0\<close> and the empty string; no other identifier has a row.
  The scripted bot answers each call with the next entry of its script, and with success
  once the script is used up.
\<close>

definition example_db :: db where
  "example_db i =
     (if i = ''a'' then Some \<lparr>wallet_id = ''0x1'', telegram_id = PyStr ''42''\<rparr>
      else if i = ''b'' then Some \<lparr>wallet_id = ''0x2'', telegram_id = PyNone\<rparr>
      else if i = ''c'' then Some \<lparr>wallet_id = ''0x3'', telegram_id = PyInt 0\<rparr>
      else if i = ''d'' then Some \<lparr>wallet_id = ''0x4'', telegram_id = PyStr []\<rparr>
      else None)"

fun scripted_bot :: "send_result list bot" where
  "scripted_bot [] chat_id text = (Sent, [])"
| "scripted_bot (r # rs) chat_id text = (r, rs)"

section \<open>Properties\<close>

subsection \<open>Auxiliary facts\<close>

lemma log_rows_append: "log_rows (xs @ ys) = log_rows xs @ log_rows ys"
  by (induction xs rule: log_rows.induct) simp_all

lemma popped_append: "popped (xs @ ys) = popped xs @ popped ys"
  by (induction xs rule: popped.induct) simp_all

lemma format_default:
  "format_wallet_id DEFAULT_MESSAGE_TEMPLATE v =
     ''Warning. Your health ratio is too low for wallet_id '' @ v"
  by (simp add: DEFAULT_MESSAGE_TEMPLATE_def)

lemma rpop_snoc:
  "queue w = q @ [i] \<Longrightarrow>
     rpop w = (Some i, w\<lparr>queue := q, events := events w @ [Rpop (Some i)]\<rparr>)"
  by (simp add: rpop_def record_event_def)

lemma rpop_empty:
  "queue w = [] \<Longrightarrow> rpop w = (None, w\<lparr>events := events w @ [Rpop None]\<rparr>)"
  by (simp add: rpop_def record_event_def)

lemma iteration_empty:
  "queue w = [] \<Longrightarrow> iteration d b w = LoopExit (w\<lparr>events := events w @ [Rpop None]\<rparr>)"
  by (simp add: iteration_def rpop_empty)

lemma iteration_falsy:
  "queue w = q @ [[]] \<Longrightarrow>
     iteration d b w = LoopExit (w\<lparr>queue := q, events := events w @ [Rpop (Some [])]\<rparr>)"
  by (simp add: iteration_def rpop_snoc)

lemma iteration_found:
  "queue w = q @ [i] \<Longrightarrow> i \<noteq> [] \<Longrightarrow> d i = Some n \<Longrightarrow>
     iteration d b w =
       deliver b i n (w\<lparr>queue := q, events := events w @ [Rpop (Some i), GetObject i]\<rparr>)"
  by (simp add: iteration_def rpop_snoc get_object_def record_event_def)

lemma iteration_missing:
  "queue w = q @ [i] \<Longrightarrow> i \<noteq> [] \<Longrightarrow> d i = None \<Longrightarrow>
     iteration d b w =
       Continue (w\<lparr>queue := q, events := events w @ [Rpop (Some i), GetObject i]\<rparr>)"
  by (simp add: iteration_def rpop_snoc get_object_def record_event_def)

lemmas call_defs =
  send_message_def lpush_def asyncio_sleep_def log_send_message_def record_event_def Let_def

lemma deliver_sent:
  "truthy (telegram_id n) \<Longrightarrow> b (bot_state w) (telegram_id n) (render n) = (Sent, e) \<Longrightarrow>
   deliver b i n w =
     Completed (w\<lparr>bot_state := e,
       events := events w @
         [SendMessage (telegram_id n) (render n),
          WriteToDb \<lparr>notification_data_id = i, is_succesfully = True, message = render n\<rparr>]\<rparr>)"
  by (simp add: deliver_def call_defs)

lemma deliver_retry_after:
  "truthy (telegram_id n) \<Longrightarrow>
   b (bot_state w) (telegram_id n) (render n) = (TelegramRetryAfter D, e) \<Longrightarrow>
   deliver b i n w =
     Completed (w\<lparr>queue := i # queue w, bot_state := e,
       events := events w @
         [SendMessage (telegram_id n) (render n), Sleep D, Lpush i,
          WriteToDb \<lparr>notification_data_id = i, is_succesfully = False, message = render n\<rparr>]\<rparr>)"
  by (simp add: deliver_def call_defs)

lemma deliver_api_error:
  "truthy (telegram_id n) \<Longrightarrow>
   b (bot_state w) (telegram_id n) (render n) = (TelegramAPIError, e) \<Longrightarrow>
   deliver b i n w =
     Completed (w\<lparr>bot_state := e,
       events := events w @
         [SendMessage (telegram_id n) (render n),
          WriteToDb \<lparr>notification_data_id = i, is_succesfully = False, message = render n\<rparr>]\<rparr>)"
  by (simp add: deliver_def call_defs)

lemma deliver_other_exception:
  "truthy (telegram_id n) \<Longrightarrow>
   b (bot_state w) (telegram_id n) (render n) = (OtherException, e) \<Longrightarrow>
   deliver b i n w =
     Propagated (w\<lparr>bot_state := e,
       events := events w @
         [SendMessage (telegram_id n) (render n),
          WriteToDb \<lparr>notification_data_id = i, is_succesfully = False, message = render n\<rparr>]\<rparr>)"
  by (simp add: deliver_def call_defs)

lemma deliver_falsy_destination:
  "\<not> truthy (telegram_id n) \<Longrightarrow>
   deliver b i n w =
     Completed (w\<lparr>events := events w @
       [WriteToDb \<lparr>notification_data_id = i, is_succesfully = False, message = render n\<rparr>]\<rparr>)"
  by (simp add: deliver_def call_defs)

lemma deliver_cases:
  "(\<exists>w'. deliver b i n w = Completed w') \<or> (\<exists>w'. deliver b i n w = Propagated w')"
  by (cases "b (bot_state w) (telegram_id n) (render n)"; cases "fst (b (bot_state w) (telegram_id n) (render n))")
     (auto simp: deliver_def call_defs)

lemma deliver_log_rows:
  "log_rows (events (flow_world (deliver b i n w))) =
     log_rows (events w) @
       [\<lparr>notification_data_id = i,
         is_succesfully =
           (truthy (telegram_id n) \<and> fst (b (bot_state w) (telegram_id n) (render n)) = Sent),
         message = render n\<rparr>]"
  by (cases "fst (b (bot_state w) (telegram_id n) (render n))")
     (auto simp: deliver_def call_defs log_rows_append)

lemma deliver_popped:
  "popped (events (flow_world (deliver b i n w))) = popped (events w)"
  by (cases "fst (b (bot_state w) (telegram_id n) (render n))")
     (auto simp: deliver_def call_defs popped_append)

lemma loop_exit:
  "iteration d b w = LoopExit w' \<Longrightarrow>
     notifications_broadcasting d b is_infinity st w = Some (Inr (), w')"
  by (subst notifications_broadcasting.simps) simp

lemma loop_continue:
  "iteration d b w = Continue w' \<Longrightarrow>
     notifications_broadcasting d b is_infinity st w = notifications_broadcasting d b is_infinity st w'"
  by (subst notifications_broadcasting.simps) simp

lemma loop_propagated:
  "iteration d b w = Propagated w' \<Longrightarrow>
     notifications_broadcasting d b is_infinity st w = Some (Inl Unhandled, w')"
  by (subst notifications_broadcasting.simps) simp

lemma loop_break:
  "iteration d b w = Completed w' \<Longrightarrow>
     notifications_broadcasting d b False st w = Some (Inr (), w')"
  by (subst notifications_broadcasting.simps) simp

lemma loop_sleep:
  "iteration d b w = Completed w' \<Longrightarrow>
     notifications_broadcasting d b True st w =
       notifications_broadcasting d b True st (asyncio_sleep st w')"
  by (subst notifications_broadcasting.simps) simp

lemma single_pass_returns:
  "\<exists>r. notifications_broadcasting d b False st w = Some r"
proof (induction "length (queue w)" arbitrary: w)
  case 0
  then show ?case by (simp add: loop_exit [OF iteration_empty])
next
  case (Suc k)
  then obtain q i where qi: "queue w = q @ [i]"
    by (metis length_Suc_conv_rev)
  show ?case
  proof (cases "i = []")
    case True
    with qi show ?thesis by (simp add: loop_exit [OF iteration_falsy])
  next
    case False
    show ?thesis
    proof (cases "d i")
      case None
      let ?w1 = "w\<lparr>queue := q, events := events w @ [Rpop (Some i), GetObject i]\<rparr>"
      from Suc.hyps(2) qi have "k = length (queue ?w1)" by simp
      have "notifications_broadcasting d b False st w =
              notifications_broadcasting d b False st ?w1"
        using qi False None by (simp add: loop_continue iteration_missing)
      with Suc.hyps(1) [OF \<open>k = length (queue ?w1)\<close>] show ?thesis by simp
    next
      case (Some n)
      from deliver_cases [of b i n "w\<lparr>queue := q, events := events w @ [Rpop (Some i), GetObject i]\<rparr>"]
      show ?thesis
        using qi False Some by (auto simp: iteration_found loop_break loop_propagated)
    qed
  qed
qed

lemma deliver_events:
  "\<exists>es. events (flow_world (deliver b i n w)) = events w @ es"
  by (cases "fst (b (bot_state w) (telegram_id n) (render n))")
     (auto simp: deliver_def call_defs)

lemma single_pass_first_pop:
  "\<exists>r w' rest.
     notifications_broadcasting d b False st w = Some (r, w') \<and>
     events w' =
       events w @ Rpop (if queue w = [] then None else Some (last (queue w))) # rest"
proof (induction "length (queue w)" arbitrary: w)
  case 0
  then have "queue w = []" by simp
  then show ?case by (simp add: loop_exit [OF iteration_empty])
next
  case (Suc k)
  then obtain q i where qi: "queue w = q @ [i]"
    by (metis length_Suc_conv_rev)
  let ?w1 = "w\<lparr>queue := q, events := events w @ [Rpop (Some i), GetObject i]\<rparr>"
  show ?case
  proof (cases "i = []")
    case True
    with qi show ?thesis by (simp add: loop_exit [OF iteration_falsy])
  next
    case False
    show ?thesis
    proof (cases "d i")
      case None
      from Suc.hyps(2) qi have "k = length (queue ?w1)" by simp
      from Suc.hyps(1) [OF this] obtain r w' rest where
        "notifications_broadcasting d b False st ?w1 = Some (r, w')"
        "events w' = events ?w1 @
           Rpop (if queue ?w1 = [] then None else Some (last (queue ?w1))) # rest"
        by blast
      moreover have "notifications_broadcasting d b False st w =
          notifications_broadcasting d b False st ?w1"
        using qi False None by (simp add: loop_continue iteration_missing)
      ultimately show ?thesis using qi by simp
    next
      case (Some n)
      have it: "iteration d b w = deliver b i n ?w1"
        using qi False Some by (rule iteration_found)
      from deliver_events [of b i n ?w1] obtain es where
        es: "events (flow_world (deliver b i n ?w1)) = events ?w1 @ es" by blast
      from deliver_cases [of b i n ?w1] show ?thesis
      proof
        assume "\<exists>w'. deliver b i n ?w1 = Completed w'"
        then obtain w' where w': "deliver b i n ?w1 = Completed w'" by blast
        with it have "notifications_broadcasting d b False st w = Some (Inr (), w')"
          by (simp add: loop_break)
        moreover from es w' have "events w' = events ?w1 @ es" by simp
        ultimately show ?thesis using qi by simp
      next
        assume "\<exists>w'. deliver b i n ?w1 = Propagated w'"
        then obtain w' where w': "deliver b i n ?w1 = Propagated w'" by blast
        with it have "notifications_broadcasting d b False st w = Some (Inl Unhandled, w')"
          by (simp add: loop_propagated)
        moreover from es w' have "events w' = events ?w1 @ es" by simp
        ultimately show ?thesis using qi by simp
      qed
    qed
  qed
qed

lemmas run_defs = iteration_def rpop_def get_object_def deliver_def call_defs example_db_def

subsection \<open>The loop: when it ends and when it sleeps\<close>

text \<open>
  Claim C1. The claim says that a call with \<open>is_infinity = True\<close> never returns, and that an
  empty pop is followed by a sleep and another pop. The loop condition is the popped value
  itself, in both modes: on an empty list the call returns at once, after that single pop
  and with no sleep.
\<close>

theorem continuous_mode_returns_on_empty_queue:
  "notifications_broadcasting d b True st (w\<lparr>queue := []\<rparr>) =
     Some (Inr (), w\<lparr>queue := [], events := events w @ [Rpop None]\<rparr>)"
  by (simp add: loop_exit [where w' = "w\<lparr>queue := [], events := events w @ [Rpop None]\<rparr>"]
        iteration_empty)

text \<open>
  Claim C2, as stated, fails for an identifier without a row: \<open>continue\<close> jumps over both the
  \<open>break\<close> and the sleep. With \<open>is_infinity = False\<close> the call below pops \<open>x\<close> (no row) and then
  \<open>b\<close>; with \<open>is_infinity = True\<close> no sleep separates the pop of \<open>x\<close> from the next pop.
\<close>

theorem missing_row_neither_breaks_nor_sleeps:
  "notifications_broadcasting example_db scripted_bot False (1/20)
     \<lparr>queue = [''b'', ''x''], bot_state = [], events = []\<rparr> =
   Some (Inr (),
     \<lparr>queue = [], bot_state = [],
      events = [Rpop (Some ''x''), GetObject ''x'', Rpop (Some ''b''), GetObject ''b'',
        WriteToDb \<lparr>notification_data_id = ''b'', is_succesfully = False,
          message = ''Warning. Your health ratio is too low for wallet_id 0x2''\<rparr>]\<rparr>) \<and>
   notifications_broadcasting example_db scripted_bot True (1/20)
     \<lparr>queue = [''x''], bot_state = [], events = []\<rparr> =
   Some (Inr (),
     \<lparr>queue = [], bot_state = [],
      events = [Rpop (Some ''x''), GetObject ''x'', Rpop None]\<rparr>)"
  by (simp add: notifications_broadcasting.simps run_defs format_default)

text \<open>
  Claim C2, amended. Let a non-empty identifier \<open>i\<close> be popped. If it has a row, then whatever
  the delivery does, with \<open>is_infinity = False\<close> the call returns in the state that pass left and
  \<open>i\<close> is the only identifier popped in the pass; with \<open>is_infinity = True\<close> the loop goes on from
  that state after sleeping \<open>sleep_time\<close>, unless an exception left the function. If \<open>i\<close> has no
  row, the loop goes on from the state after the lookup in both modes: no return, no sleep.
\<close>

theorem break_or_sleep_after_iteration:
  assumes "queue w = q @ [i]" and "i \<noteq> []"
  shows "case d i of
           None \<Rightarrow>
             notifications_broadcasting d b is_infinity st w =
               notifications_broadcasting d b is_infinity st
                 (w\<lparr>queue := q, events := events w @ [Rpop (Some i), GetObject i]\<rparr>)
         | Some n \<Rightarrow>
             (\<exists>r. notifications_broadcasting d b False st w =
                     Some (r, flow_world (iteration d b w))) \<and>
             notifications_broadcasting d b True st w =
               (if is_propagated (iteration d b w)
                then Some (Inl Unhandled, flow_world (iteration d b w))
                else notifications_broadcasting d b True st
                       (asyncio_sleep st (flow_world (iteration d b w)))) \<and>
             popped (events (flow_world (iteration d b w))) = popped (events w) @ [i]"
proof (cases "d i")
  case None
  with assms show ?thesis by (simp add: loop_continue iteration_missing)
next
  case (Some n)
  let ?w1 = "w\<lparr>queue := q, events := events w @ [Rpop (Some i), GetObject i]\<rparr>"
  have it: "iteration d b w = deliver b i n ?w1"
    using assms Some by (rule iteration_found)
  have pops: "popped (events (flow_world (iteration d b w))) = popped (events w) @ [i]"
    by (simp add: it deliver_popped popped_append)
  from deliver_cases [of b i n ?w1] show ?thesis
  proof
    assume "\<exists>w'. deliver b i n ?w1 = Completed w'"
    then obtain w' where "iteration d b w = Completed w'" using it by auto
    with pops Some show ?thesis by (simp add: loop_break loop_sleep)
  next
    assume "\<exists>w'. deliver b i n ?w1 = Propagated w'"
    then obtain w' where "iteration d b w = Propagated w'" using it by auto
    with pops Some show ?thesis by (simp add: loop_propagated)
  qed
qed

theorem break_or_sleep_after_iteration_witness:
  "((\<exists>r. notifications_broadcasting example_db scripted_bot False (1/20)
            \<lparr>queue = [''b'', ''a''], bot_state = [TelegramAPIError], events = []\<rparr> =
          Some (r, \<lparr>queue = [''b''], bot_state = [],
            events = [Rpop (Some ''a''), GetObject ''a'',
              SendMessage (PyStr ''42'') ''Warning. Your health ratio is too low for wallet_id 0x1'',
              WriteToDb \<lparr>notification_data_id = ''a'', is_succesfully = False,
                message = ''Warning. Your health ratio is too low for wallet_id 0x1''\<rparr>]\<rparr>)) \<and>
    notifications_broadcasting example_db scripted_bot True (1/20)
      \<lparr>queue = [''b'', ''a''], bot_state = [TelegramAPIError], events = []\<rparr> =
    notifications_broadcasting example_db scripted_bot True (1/20)
      \<lparr>queue = [''b''], bot_state = [],
       events = [Rpop (Some ''a''), GetObject ''a'',
         SendMessage (PyStr ''42'') ''Warning. Your health ratio is too low for wallet_id 0x1'',
         WriteToDb \<lparr>notification_data_id = ''a'', is_succesfully = False,
           message = ''Warning. Your health ratio is too low for wallet_id 0x1''\<rparr>,
         Sleep (1/20)]\<rparr>) \<and>
   notifications_broadcasting example_db scripted_bot True (1/20)
     \<lparr>queue = [''b'', ''x''], bot_state = [], events = []\<rparr> =
   notifications_broadcasting example_db scripted_bot True (1/20)
     \<lparr>queue = [''b''], bot_state = [], events = [Rpop (Some ''x''), GetObject ''x'']\<rparr>"
  using
    break_or_sleep_after_iteration [where d = example_db and b = scripted_bot and st = "1/20"
      and w = "\<lparr>queue = [''b'', ''a''], bot_state = [TelegramAPIError], events = []\<rparr>"
      and q = "[''b'']" and i = "''a''"]
    break_or_sleep_after_iteration [where d = example_db and b = scripted_bot and st = "1/20"
      and is_infinity = True
      and w = "\<lparr>queue = [''b'', ''x''], bot_state = ([] :: send_result list), events = []\<rparr>"
      and q = "[''b'']" and i = "''x''"]
  by (simp add: run_defs format_default)

subsection \<open>One popped identifier: what is sent, pushed and logged\<close>

text \<open>
  Claim C3. When the bot answers the send for a popped identifier \<open>i\<close> with
  \<open>TelegramRetryAfter D\<close>, the pass does, in this order and nothing else after the send: sleep
  \<open>D\<close>, push \<open>i\<close> on the left of the list (the end where \<open>send_notification\<close> pushes, the
  far end from \<open>rpop\<close>), write one log row for \<open>i\<close> with \<open>is_succesfully = False\<close>.
\<close>

theorem retry_after_sleeps_requeues_logs_failure:
  assumes "queue w = q @ [i]" and "i \<noteq> []" and "d i = Some n"
    and "truthy (telegram_id n)"
    and "b (bot_state w) (telegram_id n) (render n) = (TelegramRetryAfter D, e)"
  shows "iteration d b w =
           Completed (w\<lparr>queue := i # q, bot_state := e,
             events := events w @
               [Rpop (Some i), GetObject i, SendMessage (telegram_id n) (render n),
                Sleep D, Lpush i,
                WriteToDb \<lparr>notification_data_id = i, is_succesfully = False,
                  message = render n\<rparr>]\<rparr>) \<and>
         queue (send_notification i (w\<lparr>queue := q\<rparr>)) = i # q"
  using assms
  by (simp add: iteration_found deliver_retry_after send_notification_def lpush_def
        record_event_def)

theorem retry_after_sleeps_requeues_logs_failure_witness:
  "example_db ''a'' = Some \<lparr>wallet_id = ''0x1'', telegram_id = PyStr ''42''\<rparr> \<and>
   scripted_bot [TelegramRetryAfter 2] (PyStr ''42'')
     ''Warning. Your health ratio is too low for wallet_id 0x1'' = (TelegramRetryAfter 2, []) \<and>
   iteration example_db scripted_bot
     \<lparr>queue = [''b'', ''a''], bot_state = [TelegramRetryAfter 2], events = []\<rparr> =
   Completed
     \<lparr>queue = [''a'', ''b''], bot_state = [],
      events = [Rpop (Some ''a''), GetObject ''a'',
        SendMessage (PyStr ''42'') ''Warning. Your health ratio is too low for wallet_id 0x1'',
        Sleep 2, Lpush ''a'',
        WriteToDb \<lparr>notification_data_id = ''a'', is_succesfully = False,
          message = ''Warning. Your health ratio is too low for wallet_id 0x1''\<rparr>]\<rparr>"
  using retry_after_sleeps_requeues_logs_failure [where d = example_db and b = scripted_bot
      and w = "\<lparr>queue = [''b'', ''a''], bot_state = [TelegramRetryAfter 2], events = []\<rparr>"
      and q = "[''b'']" and i = "''a''" and D = 2 and e = "[]"
      and n = "\<lparr>wallet_id = ''0x1'', telegram_id = PyStr ''42''\<rparr>"]
  by (simp add: example_db_def format_default)

text \<open>
  Claim C4. A popped identifier without a row: the pass ends at \<open>continue\<close> having done the pop
  and the lookup only (no log row, no push; the list has lost the identifier), and the loop
  goes on from that state. That it does go on is visible in what the call records: with
  \<open>is_infinity = False\<close> the call returns and the event after the lookup is the next pop, of
  the element now rightmost (or of the empty list); and when the identifier was alone in the
  list, the call returns in both modes after that second, empty pop.
\<close>

theorem missing_row_skipped_silently:
  assumes "queue w = q @ [i]" and "i \<noteq> []" and "d i = None"
  shows "iteration d b w =
           Continue (w\<lparr>queue := q, events := events w @ [Rpop (Some i), GetObject i]\<rparr>) \<and>
         notifications_broadcasting d b is_infinity st w =
           notifications_broadcasting d b is_infinity st
             (w\<lparr>queue := q, events := events w @ [Rpop (Some i), GetObject i]\<rparr>) \<and>
         (\<exists>r w' rest.
            notifications_broadcasting d b False st w = Some (r, w') \<and>
            events w' =
              events w @
                [Rpop (Some i), GetObject i,
                 Rpop (if q = [] then None else Some (last q))] @ rest) \<and>
         notifications_broadcasting d b is_infinity st (w\<lparr>queue := [i]\<rparr>) =
           Some (Inr (),
             w\<lparr>queue := [],
               events := events w @ [Rpop (Some i), GetObject i, Rpop None]\<rparr>)"
proof -
  let ?w1 = "w\<lparr>queue := q, events := events w @ [Rpop (Some i), GetObject i]\<rparr>"
  have it: "iteration d b w = Continue ?w1"
    using assms by (rule iteration_missing)
  have go: "notifications_broadcasting d b is_infinity st w =
      notifications_broadcasting d b is_infinity st ?w1"
    using it by (rule loop_continue)
  have go_single: "notifications_broadcasting d b False st w =
      notifications_broadcasting d b False st ?w1"
    using it by (rule loop_continue)
  from single_pass_first_pop [of d b st ?w1] obtain r w' rest where
    "notifications_broadcasting d b False st ?w1 = Some (r, w')"
    "events w' = events ?w1 @
       Rpop (if queue ?w1 = [] then None else Some (last (queue ?w1))) # rest"
    by blast
  with go_single have next_pop: "\<exists>r w' rest.
      notifications_broadcasting d b False st w = Some (r, w') \<and>
      events w' =
        events w @
          [Rpop (Some i), GetObject i,
           Rpop (if q = [] then None else Some (last q))] @ rest"
    by simp
  let ?v = "w\<lparr>queue := [i]\<rparr>"
  let ?v1 = "w\<lparr>queue := [], events := events w @ [Rpop (Some i), GetObject i]\<rparr>"
  have "iteration d b ?v = Continue ?v1"
    using iteration_missing [of ?v "[]" i d b] assms(2,3) by simp
  then have "notifications_broadcasting d b is_infinity st ?v =
      notifications_broadcasting d b is_infinity st ?v1"
    by (rule loop_continue)
  also have "\<dots> = Some (Inr (),
      w\<lparr>queue := [], events := events w @ [Rpop (Some i), GetObject i, Rpop None]\<rparr>)"
    by (simp add: loop_exit [where w' = "w\<lparr>queue := [],
          events := events w @ [Rpop (Some i), GetObject i, Rpop None]\<rparr>"] iteration_empty)
  finally have alone: "notifications_broadcasting d b is_infinity st ?v =
      Some (Inr (),
        w\<lparr>queue := [], events := events w @ [Rpop (Some i), GetObject i, Rpop None]\<rparr>)" .
  from it go next_pop alone show ?thesis by blast
qed

theorem missing_row_skipped_silently_witness:
  "example_db ''x'' = None \<and>
   iteration example_db scripted_bot \<lparr>queue = [''b'', ''x''], bot_state = [], events = []\<rparr> =
     Continue \<lparr>queue = [''b''], bot_state = [], events = [Rpop (Some ''x''), GetObject ''x'']\<rparr> \<and>
   (\<exists>r w' rest.
      notifications_broadcasting example_db scripted_bot False (1/20)
        \<lparr>queue = [''b'', ''x''], bot_state = [], events = []\<rparr> = Some (r, w') \<and>
      events w' = Rpop (Some ''x'') # GetObject ''x'' # Rpop (Some ''b'') # rest) \<and>
   notifications_broadcasting example_db scripted_bot True (1/20)
     \<lparr>queue = [''x''], bot_state = [], events = []\<rparr> =
   Some (Inr (),
     \<lparr>queue = [], bot_state = [],
      events = [Rpop (Some ''x''), GetObject ''x'', Rpop None]\<rparr>)"
  using missing_row_skipped_silently [where d = example_db and b = scripted_bot
      and is_infinity = True and st = "1/20"
      and w = "\<lparr>queue = [''b'', ''x''], bot_state = ([] :: send_result list), events = []\<rparr>"
      and q = "[''b'']" and i = "''x''"]
  by (simp add: example_db_def)

text \<open>
  Claim C5. For a popped identifier \<open>i\<close>, the log rows written by the pass are: none when \<open>i\<close>
  has no row; otherwise exactly one, holding \<open>i\<close>, the rendered text and the flag, and the
  flag is true exactly when a send was made and returned. This covers every answer of the
  bot, the exception that leaves the function included.
\<close>

theorem one_log_row_per_resolved_identifier:
  assumes "queue w = q @ [i]" and "i \<noteq> []"
  shows "log_rows (events (flow_world (iteration d b w))) =
           log_rows (events w) @
             (case d i of
                None \<Rightarrow> []
              | Some n \<Rightarrow>
                  [\<lparr>notification_data_id = i,
                    is_succesfully =
                      (truthy (telegram_id n) \<and>
                       fst (b (bot_state w) (telegram_id n) (render n)) = Sent),
                    message = render n\<rparr>])"
proof (cases "d i")
  case None
  with assms show ?thesis by (simp add: iteration_missing log_rows_append)
next
  case (Some n)
  with assms show ?thesis
    by (simp add: iteration_found deliver_log_rows log_rows_append)
qed

theorem one_log_row_per_resolved_identifier_witness:
  "log_rows (events (flow_world (iteration example_db scripted_bot
     \<lparr>queue = [''b'', ''a''], bot_state = [OtherException], events = []\<rparr>))) =
   [\<lparr>notification_data_id = ''a'', is_succesfully = False,
     message = ''Warning. Your health ratio is too low for wallet_id 0x1''\<rparr>] \<and>
   log_rows (events (flow_world (iteration example_db scripted_bot
     \<lparr>queue = [''b'', ''a''], bot_state = [Sent], events = []\<rparr>))) =
   [\<lparr>notification_data_id = ''a'', is_succesfully = True,
     message = ''Warning. Your health ratio is too low for wallet_id 0x1''\<rparr>] \<and>
   log_rows (events (flow_world (iteration example_db scripted_bot
     \<lparr>queue = [''b'', ''x''], bot_state = [Sent], events = []\<rparr>))) = []"
  using
    one_log_row_per_resolved_identifier [where d = example_db and b = scripted_bot
      and w = "\<lparr>queue = [''b'', ''a''], bot_state = [OtherException], events = []\<rparr>"
      and q = "[''b'']" and i = "''a''"]
    one_log_row_per_resolved_identifier [where d = example_db and b = scripted_bot
      and w = "\<lparr>queue = [''b'', ''a''], bot_state = [Sent], events = []\<rparr>"
      and q = "[''b'']" and i = "''a''"]
    one_log_row_per_resolved_identifier [where d = example_db and b = scripted_bot
      and w = "\<lparr>queue = [''b'', ''x''], bot_state = [Sent], events = []\<rparr>"
      and q = "[''b'']" and i = "''x''"]
  by (simp add: example_db_def format_default)

text \<open>
  Claim C6, as stated, fails for a delivery error outside the \<open>TelegramAPIError\<close> family:
  no handler catches it, so after the \<open>finally\<close> clause has written the log row it leaves
  the function. Below, the send for \<open>a\<close> raises such an exception and the call ends with it in
  both modes, with \<open>b\<close> still in the list.
\<close>

theorem unexpected_exception_aborts_loop:
  "notifications_broadcasting example_db scripted_bot True (1/20)
     \<lparr>queue = [''b'', ''a''], bot_state = [OtherException], events = []\<rparr> =
   Some (Inl Unhandled,
     \<lparr>queue = [''b''], bot_state = [],
      events = [Rpop (Some ''a''), GetObject ''a'',
        SendMessage (PyStr ''42'') ''Warning. Your health ratio is too low for wallet_id 0x1'',
        WriteToDb \<lparr>notification_data_id = ''a'', is_succesfully = False,
          message = ''Warning. Your health ratio is too low for wallet_id 0x1''\<rparr>]\<rparr>) \<and>
   notifications_broadcasting example_db scripted_bot False (1/20)
     \<lparr>queue = [''b'', ''a''], bot_state = [OtherException], events = []\<rparr> =
   Some (Inl Unhandled,
     \<lparr>queue = [''b''], bot_state = [],
      events = [Rpop (Some ''a''), GetObject ''a'',
        SendMessage (PyStr ''42'') ''Warning. Your health ratio is too low for wallet_id 0x1'',
        WriteToDb \<lparr>notification_data_id = ''a'', is_succesfully = False,
          message = ''Warning. Your health ratio is too low for wallet_id 0x1''\<rparr>]\<rparr>)"
  by (simp add: notifications_broadcasting.simps run_defs format_default)

text \<open>
  Claim C6, amended. When the send raises a \<open>TelegramAPIError\<close> other than
  \<open>TelegramRetryAfter\<close>, the pass ends normally: after the send it writes one log
  row with \<open>is_succesfully = False\<close> and pushes nothing; with \<open>is_infinity = False\<close> the call
  returns normally, with \<open>is_infinity = True\<close> it sleeps and goes on. When the send raises any
  other exception, the same log row is written and nothing is pushed, but the call ends with
  the exception in both modes.
\<close>

theorem delivery_error_swallowed_or_propagated:
  assumes "queue w = q @ [i]" and "i \<noteq> []" and "d i = Some n"
    and "truthy (telegram_id n)"
    and "b (bot_state w) (telegram_id n) (render n) = (r, e)"
    and "r = TelegramAPIError \<or> r = OtherException"
  shows "iteration d b w =
           (if r = TelegramAPIError then Completed else Propagated)
             (w\<lparr>queue := q, bot_state := e,
                events := events w @
                  [Rpop (Some i), GetObject i, SendMessage (telegram_id n) (render n),
                   WriteToDb \<lparr>notification_data_id = i, is_succesfully = False,
                     message = render n\<rparr>]\<rparr>) \<and>
         notifications_broadcasting d b False st w =
           Some (if r = TelegramAPIError then Inr () else Inl Unhandled,
                 flow_world (iteration d b w)) \<and>
         notifications_broadcasting d b True st w =
           (if r = TelegramAPIError
            then notifications_broadcasting d b True st
                   (asyncio_sleep st (flow_world (iteration d b w)))
            else Some (Inl Unhandled, flow_world (iteration d b w)))"
proof -
  let ?w' = "w\<lparr>queue := q, bot_state := e,
             events := events w @
               [Rpop (Some i), GetObject i, SendMessage (telegram_id n) (render n),
                WriteToDb \<lparr>notification_data_id = i, is_succesfully = False,
                  message = render n\<rparr>]\<rparr>"
  from assms(6) show ?thesis
  proof
    assume r: "r = TelegramAPIError"
    have it: "iteration d b w = Completed ?w'"
      using assms(1-5) r by (simp add: iteration_found deliver_api_error)
    from it loop_break [OF it] loop_sleep [OF it] r show ?thesis by simp
  next
    assume r: "r = OtherException"
    have it: "iteration d b w = Propagated ?w'"
      using assms(1-5) r by (simp add: iteration_found deliver_other_exception)
    from it loop_propagated [OF it] r show ?thesis by simp
  qed
qed

theorem delivery_error_swallowed_or_propagated_witness:
  "example_db ''a'' = Some \<lparr>wallet_id = ''0x1'', telegram_id = PyStr ''42''\<rparr> \<and>
   notifications_broadcasting example_db scripted_bot False (1/20)
     \<lparr>queue = [''b'', ''a''], bot_state = [TelegramAPIError], events = []\<rparr> =
   Some (Inr (),
     \<lparr>queue = [''b''], bot_state = [],
      events = [Rpop (Some ''a''), GetObject ''a'',
        SendMessage (PyStr ''42'') ''Warning. Your health ratio is too low for wallet_id 0x1'',
        WriteToDb \<lparr>notification_data_id = ''a'', is_succesfully = False,
          message = ''Warning. Your health ratio is too low for wallet_id 0x1''\<rparr>]\<rparr>) \<and>
   notifications_broadcasting example_db scripted_bot False (1/20)
     \<lparr>queue = [''b'', ''a''], bot_state = [OtherException, Sent], events = []\<rparr> =
   Some (Inl Unhandled,
     \<lparr>queue = [''b''], bot_state = [Sent],
      events = [Rpop (Some ''a''), GetObject ''a'',
        SendMessage (PyStr ''42'') ''Warning. Your health ratio is too low for wallet_id 0x1'',
        WriteToDb \<lparr>notification_data_id = ''a'', is_succesfully = False,
          message = ''Warning. Your health ratio is too low for wallet_id 0x1''\<rparr>]\<rparr>)"
  using
    delivery_error_swallowed_or_propagated [where d = example_db and b = scripted_bot
      and st = "1/20" and r = TelegramAPIError and e = "[]"
      and w = "\<lparr>queue = [''b'', ''a''], bot_state = [TelegramAPIError], events = []\<rparr>"
      and q = "[''b'']" and i = "''a''"
      and n = "\<lparr>wallet_id = ''0x1'', telegram_id = PyStr ''42''\<rparr>"]
    delivery_error_swallowed_or_propagated [where d = example_db and b = scripted_bot
      and st = "1/20" and r = OtherException and e = "[Sent]"
      and w = "\<lparr>queue = [''b'', ''a''], bot_state = [OtherException, Sent], events = []\<rparr>"
      and q = "[''b'']" and i = "''a''"
      and n = "\<lparr>wallet_id = ''0x1'', telegram_id = PyStr ''42''\<rparr>"]
  by (simp add: example_db_def format_default)

text \<open>
  Claim C7. A row whose \<open>telegram_id\<close> is \<open>None\<close>: the pass makes no send, writes one log row
  with \<open>is_succesfully = False\<close>, pushes nothing, and ends normally, so a call with
  \<open>is_infinity = False\<close> returns without an exception.
\<close>

theorem no_destination_logged_not_sent:
  assumes "queue w = q @ [i]" and "i \<noteq> []" and "d i = Some n"
    and "telegram_id n = PyNone"
  shows "iteration d b w =
           Completed (w\<lparr>queue := q,
             events := events w @
               [Rpop (Some i), GetObject i,
                WriteToDb \<lparr>notification_data_id = i, is_succesfully = False,
                  message = render n\<rparr>]\<rparr>) \<and>
         notifications_broadcasting d b False st w =
           Some (Inr (), flow_world (iteration d b w))"
proof -
  have it: "iteration d b w =
           Completed (w\<lparr>queue := q,
             events := events w @
               [Rpop (Some i), GetObject i,
                WriteToDb \<lparr>notification_data_id = i, is_succesfully = False,
                  message = render n\<rparr>]\<rparr>)"
    using assms by (simp add: iteration_found deliver_falsy_destination)
  from it loop_break [OF it] show ?thesis by simp
qed

theorem no_destination_logged_not_sent_witness:
  "example_db ''b'' = Some \<lparr>wallet_id = ''0x2'', telegram_id = PyNone\<rparr> \<and>
   notifications_broadcasting example_db scripted_bot False (1/20)
     \<lparr>queue = [''a'', ''b''], bot_state = [Sent], events = []\<rparr> =
   Some (Inr (),
     \<lparr>queue = [''a''], bot_state = [Sent],
      events = [Rpop (Some ''b''), GetObject ''b'',
        WriteToDb \<lparr>notification_data_id = ''b'', is_succesfully = False,
          message = ''Warning. Your health ratio is too low for wallet_id 0x2''\<rparr>]\<rparr>)"
  using no_destination_logged_not_sent [where d = example_db and b = scripted_bot
      and st = "1/20"
      and w = "\<lparr>queue = [''a'', ''b''], bot_state = [Sent], events = []\<rparr>"
      and q = "[''a'']" and i = "''b''"
      and n = "\<lparr>wallet_id = ''0x2'', telegram_id = PyNone\<rparr>"]
  by (simp add: example_db_def format_default)

text \<open>
  Claim C8. When the send returns, the pass writes one log row for the identifier with
  \<open>is_succesfully = True\<close> and pushes nothing; the text sent and logged is the template with
  the row's \<open>wallet_id\<close> in place of the field.
\<close>

theorem sent_logged_success:
  assumes "queue w = q @ [i]" and "i \<noteq> []" and "d i = Some n"
    and "truthy (telegram_id n)"
    and "b (bot_state w) (telegram_id n) (render n) = (Sent, e)"
  shows "iteration d b w =
           Completed (w\<lparr>queue := q, bot_state := e,
             events := events w @
               [Rpop (Some i), GetObject i, SendMessage (telegram_id n) (render n),
                WriteToDb \<lparr>notification_data_id = i, is_succesfully = True,
                  message = render n\<rparr>]\<rparr>) \<and>
         render n = ''Warning. Your health ratio is too low for wallet_id '' @ wallet_id n"
  using assms by (simp add: iteration_found deliver_sent format_default)

theorem sent_logged_success_witness:
  "example_db ''a'' = Some \<lparr>wallet_id = ''0x1'', telegram_id = PyStr ''42''\<rparr> \<and>
   scripted_bot [Sent, TelegramAPIError] (PyStr ''42'')
     ''Warning. Your health ratio is too low for wallet_id 0x1'' = (Sent, [TelegramAPIError]) \<and>
   iteration example_db scripted_bot
     \<lparr>queue = [''b'', ''a''], bot_state = [Sent, TelegramAPIError], events = []\<rparr> =
   Completed
     \<lparr>queue = [''b''], bot_state = [TelegramAPIError],
      events = [Rpop (Some ''a''), GetObject ''a'',
        SendMessage (PyStr ''42'') ''Warning. Your health ratio is too low for wallet_id 0x1'',
        WriteToDb \<lparr>notification_data_id = ''a'', is_succesfully = True,
          message = ''Warning. Your health ratio is too low for wallet_id 0x1''\<rparr>]\<rparr>"
  using sent_logged_success [where d = example_db and b = scripted_bot
      and w = "\<lparr>queue = [''b'', ''a''], bot_state = [Sent, TelegramAPIError], events = []\<rparr>"
      and q = "[''b'']" and i = "''a''" and e = "[TelegramAPIError]"
      and n = "\<lparr>wallet_id = ''0x1'', telegram_id = PyStr ''42''\<rparr>"]
  by (simp add: example_db_def format_default)

text \<open>
  Claim C9. When the rightmost element of the list is the empty byte string, the call
  returns normally in both modes after that single pop: the element has left the list, and
  there is no lookup, no log row and no push. A call on the empty list ends the same way,
  after a pop that returned \<open>None\<close>.
\<close>

theorem falsy_identifier_ends_loop:
  assumes "queue w = q @ [[]]"
  shows "notifications_broadcasting d b is_infinity st w =
           Some (Inr (), w\<lparr>queue := q, events := events w @ [Rpop (Some [])]\<rparr>) \<and>
         notifications_broadcasting d b is_infinity st (w\<lparr>queue := []\<rparr>) =
           Some (Inr (), w\<lparr>queue := [], events := events w @ [Rpop None]\<rparr>)"
proof -
  have "iteration d b w = LoopExit (w\<lparr>queue := q, events := events w @ [Rpop (Some [])]\<rparr>)"
    using assms by (rule iteration_falsy)
  moreover have "iteration d b (w\<lparr>queue := []\<rparr>) =
      LoopExit (w\<lparr>queue := [], events := events w @ [Rpop None]\<rparr>)"
    by (simp add: iteration_empty)
  ultimately show ?thesis by (simp add: loop_exit)
qed

theorem falsy_identifier_ends_loop_witness:
  "notifications_broadcasting example_db scripted_bot True (1/20)
     \<lparr>queue = [''a'', ''''], bot_state = [], events = []\<rparr> =
   Some (Inr (), \<lparr>queue = [''a''], bot_state = [], events = [Rpop (Some '''')]\<rparr>) \<and>
   notifications_broadcasting example_db scripted_bot True (1/20)
     \<lparr>queue = [], bot_state = [], events = []\<rparr> =
   Some (Inr (), \<lparr>queue = [], bot_state = [], events = [Rpop None]\<rparr>)"
  using falsy_identifier_ends_loop [where d = example_db and b = scripted_bot
      and is_infinity = True and st = "1/20"
      and w = "\<lparr>queue = [''a'', ''''], bot_state = ([] :: send_result list), events = []\<rparr>"
      and q = "[''a'']"]
  by simp

text \<open>
  Claim C10. The test on the destination is a truth test: for a row whose \<open>telegram_id\<close> is
  \<open>None\<close>, the empty string or \<open>0\<close>, the pass makes no send and writes one log row with
  \<open>is_succesfully = False\<close>, as for a missing destination.
\<close>

theorem falsy_destination_logged_not_sent:
  assumes "queue w = q @ [i]" and "i \<noteq> []" and "d i = Some n"
    and "telegram_id n = PyNone \<or> telegram_id n = PyStr [] \<or> telegram_id n = PyInt 0"
  shows "iteration d b w =
           Completed (w\<lparr>queue := q,
             events := events w @
               [Rpop (Some i), GetObject i,
                WriteToDb \<lparr>notification_data_id = i, is_succesfully = False,
                  message = render n\<rparr>]\<rparr>)"
proof -
  from assms(4) have "\<not> truthy (telegram_id n)" by auto
  with assms(1-3) show ?thesis by (simp add: iteration_found deliver_falsy_destination)
qed

theorem falsy_destination_logged_not_sent_witness:
  "iteration example_db scripted_bot
     \<lparr>queue = [''a'', ''c''], bot_state = [Sent], events = []\<rparr> =
   Completed
     \<lparr>queue = [''a''], bot_state = [Sent],
      events = [Rpop (Some ''c''), GetObject ''c'',
        WriteToDb \<lparr>notification_data_id = ''c'', is_succesfully = False,
          message = ''Warning. Your health ratio is too low for wallet_id 0x3''\<rparr>]\<rparr> \<and>
   iteration example_db scripted_bot
     \<lparr>queue = [''a'', ''d''], bot_state = [Sent], events = []\<rparr> =
   Completed
     \<lparr>queue = [''a''], bot_state = [Sent],
      events = [Rpop (Some ''d''), GetObject ''d'',
        WriteToDb \<lparr>notification_data_id = ''d'', is_succesfully = False,
          message = ''Warning. Your health ratio is too low for wallet_id 0x4''\<rparr>]\<rparr>"
  using
    falsy_destination_logged_not_sent [where d = example_db and b = scripted_bot
      and w = "\<lparr>queue = [''a'', ''c''], bot_state = [Sent], events = []\<rparr>"
      and q = "[''a'']" and i = "''c''"
      and n = "\<lparr>wallet_id = ''0x3'', telegram_id = PyInt 0\<rparr>"]
    falsy_destination_logged_not_sent [where d = example_db and b = scripted_bot
      and w = "\<lparr>queue = [''a'', ''d''], bot_state = [Sent], events = []\<rparr>"
      and q = "[''a'']" and i = "''d''"
      and n = "\<lparr>wallet_id = ''0x4'', telegram_id = PyStr []\<rparr>"]
  by (simp add: example_db_def format_default)

end
